theory Spec2Isabelle
  imports Complex_Main
begin

section \<open>Values exchanged with the downstream services\<close>

text \<open>
  The gateway owns no data: every value it inspects is a parsed JSON document returned by
  the interpreter or the orchestrator.  A Python \<open>dict\<close> is an association list read with
  \<open>map_of\<close>; Python's \<open>None\<close> is \<open>JNull\<close>.
\<close>

datatype json =
    JNull
  | JBool bool
  | JInt int
  | JFloat real
  | JStr string
  | JList "json list"
  | JObj "(string \<times> json) list"

text \<open>The Python exceptions other than \<open>HTTPException\<close> that the handlers can meet.\<close>

datatype pyexc =
    TypeError
  | KeyError
  | AttributeError
  | JSONDecodeError
  | ValidationError
  | ValueError
  | OverflowError

datatype error =
    HTTPException (status_code: int) (detail: json)
  | Uncaught pyexc

text \<open>Python truthiness, as \<open>not x\<close> and \<open>if x\<close> use it.\<close>

fun truthy :: "json \<Rightarrow> bool" where
  "truthy JNull = False"
| "truthy (JBool b) = b"
| "truthy (JInt i) = (i \<noteq> 0)"
| "truthy (JFloat r) = (r \<noteq> 0)"
| "truthy (JStr s) = (s \<noteq> [])"
| "truthy (JList xs) = (xs \<noteq> [])"
| "truthy (JObj kvs) = (kvs \<noteq> [])"

text \<open>\<open>x[k]\<close> with a string key: only a dict has it; a missing key raises.\<close>

fun subscript :: "json \<Rightarrow> string \<Rightarrow> error + json" where
  "subscript (JObj kvs) k =
     (case map_of kvs k of None \<Rightarrow> Inl (Uncaught KeyError) | Some v \<Rightarrow> Inr v)"
| "subscript _ k = Inl (Uncaught TypeError)"

text \<open>\<open>x.get(k)\<close> and \<open>x.get(k, d)\<close>: only a dict has the method.\<close>

fun get_default :: "json \<Rightarrow> string \<Rightarrow> json \<Rightarrow> error + json" where
  "get_default (JObj kvs) k d = (case map_of kvs k of None \<Rightarrow> Inr d | Some v \<Rightarrow> Inr v)"
| "get_default _ k d = Inl (Uncaught AttributeError)"

definition get :: "json \<Rightarrow> string \<Rightarrow> error + json" where
  "get x k = get_default x k JNull"




section \<open>Downstream calls and their trace\<close>

datatype http_request =
  Request (req_method: string) (endpoint: string) (params: "(string \<times> string) list")
    (body: "json option")

text \<open>
  What \<open>client.request\<close> of httpx yields: a response (status code and body, \<open>None\<close> when
  the body is not JSON) or a \<open>RequestError\<close> with its message.
\<close>

datatype outcome =
    Response int "json option"
  | RequestError string

datatype call =
    InterpreterCall http_request
  | OrchesterStart json

record ContainerInternalDTO =
  docker_id :: json
  image_tag :: json
  port :: json
  connection :: json

record datetime =
  micros :: int
  utcoffset :: "int option"

text \<open>
  The world around a handler.  \<open>transport\<close> answers an interpreter request, given the
  calls made so far; \<open>start_container\<close> is the orchestrator client, \<open>validate_container\<close>
  the pydantic validation of \<open>ContainerInternalDTO\<close> (both declared outside the files
  under study); \<open>fromisoformat\<close> is \<open>datetime.fromisoformat\<close> (\<open>None\<close> is its
  \<open>ValueError\<close>) and \<open>utcnow\<close> the clock read by \<open>datetime.now(timezone.utc)\<close>.
\<close>

record env =
  transport :: "call list \<Rightarrow> http_request \<Rightarrow> outcome"
  start_container :: "call list \<Rightarrow> json \<Rightarrow> error + json"
  validate_container :: "ContainerInternalDTO \<Rightarrow> ContainerInternalDTO option"
  fromisoformat :: "string \<Rightarrow> datetime option"
  utcnow :: int

text \<open>
  A handler is a function of the trace of downstream calls already made; it returns its
  result or the exception it raises, and the extended trace.
\<close>

type_synonym 'a io = "call list \<Rightarrow> (error + 'a) \<times> call list"

definition io_return :: "'a \<Rightarrow> 'a io" where
  "io_return v tr = (Inr v, tr)"

definition io_raise :: "error \<Rightarrow> 'a io" where
  "io_raise e tr = (Inl e, tr)"

definition io_bind :: "'a io \<Rightarrow> ('a \<Rightarrow> 'b io) \<Rightarrow> 'b io" where
  "io_bind m f tr = (case m tr of (Inl e, tr') \<Rightarrow> (Inl e, tr') | (Inr v, tr') \<Rightarrow> f v tr')"

definition io_lift :: "error + 'a \<Rightarrow> 'a io" where
  "io_lift r tr = (r, tr)"

section \<open>The interpreter client\<close>

definition msg_request_error :: string where
  "msg_request_error = ''Erro na requisi'' @ [CHR 0xE7, CHR 0xE3] @ ''o ao Interpreter''"

definition msg_interpreter_5xx :: string where
  "msg_interpreter_5xx = ''Erro interno no Interpreter.''"

definition msg_connection :: "string \<Rightarrow> string" where
  "msg_connection exc = ''Falha de conex'' @ [CHR 0xE3] @ ''o: '' @ exc"

text \<open>\<open>response.json()\<close>: raises when the body is not JSON.\<close>

definition response_json :: "json option \<Rightarrow> error + json" where
  "response_json b = (case b of None \<Rightarrow> Inl (Uncaught JSONDecodeError) | Some j \<Rightarrow> Inr j)"

text \<open>The status-code mapping of \<open>InterpreterClient._request\<close>, in the source's order.\<close>

definition map_outcome :: "outcome \<Rightarrow> error + json" where
  "map_outcome out =
     (case out of
        RequestError exc \<Rightarrow> Inl (HTTPException 503 (JStr (msg_connection exc)))
      | Response sc b \<Rightarrow>
          if sc = 404 then Inr JNull
          else if sc = 204 then Inr JNull
          else if 400 \<le> sc \<and> sc < 500 then
            (case response_json b of
               Inl e \<Rightarrow> Inl e
             | Inr j \<Rightarrow>
                 (case get_default j ''detail'' (JStr msg_request_error) of
                    Inl e \<Rightarrow> Inl e
                  | Inr d \<Rightarrow> Inl (HTTPException sc d)))
          else if sc \<ge> 500 then Inl (HTTPException 502 (JStr msg_interpreter_5xx))
          else response_json b)"

definition request :: "env \<Rightarrow> string \<Rightarrow> string \<Rightarrow> (string \<times> string) list \<Rightarrow> json option \<Rightarrow> json io"
  where
  "request e m ep ps b tr =
     (let rq = Request m ep ps b
      in (map_outcome (transport e tr rq), tr @ [InterpreterCall rq]))"




definition interpreter_list_all_exercises :: "env \<Rightarrow> json io" where
  "interpreter_list_all_exercises e = request e ''GET'' ''/exercises/'' [] None"


definition interpreter_create_exercise :: "env \<Rightarrow> json \<Rightarrow> json io" where
  "interpreter_create_exercise e ex_data = request e ''POST'' ''/exercises/'' [] (Some ex_data)"

definition interpreter_delete_exercise :: "env \<Rightarrow> string \<Rightarrow> json io" where
  "interpreter_delete_exercise e ex_id = request e ''DELETE'' (''/exercises/'' @ ex_id) [] None"

definition interpreter_get_container_by_exercise :: "env \<Rightarrow> string \<Rightarrow> json io" where
  "interpreter_get_container_by_exercise e ex_id =
     request e ''GET'' (''/containers/exercise/'' @ ex_id) [] None"





section \<open>Request payloads and the caller\<close>

text \<open>
  \<open>AuthToken\<close>, as \<open>get_current_user\<close> hands it to every handler (the field \<open>id\<close> is
  \<open>user_id\<close> here).
\<close>

record AuthToken =
  user_id :: string
  username :: string
  role :: string







section \<open>Dates\<close>








section \<open>The exercises router\<close>

definition msg_denied :: string where
  "msg_denied = ''Acesso negado''"






definition msg_inactive :: string where
  "msg_inactive =
     ''A infraestrutura deste desafio n'' @ [CHR 0xE3] @ ''o est'' @ [CHR 0xE1] @ '' ativa''"


definition list_all_exercises :: "env \<Rightarrow> AuthToken \<Rightarrow> json io" where
  "list_all_exercises e user = interpreter_list_all_exercises e"

text \<open>\<open>not container or not container.get("is_active")\<close>, with \<open>or\<close> short-circuiting.\<close>

definition not_or_not_get :: "json \<Rightarrow> string \<Rightarrow> error + bool" where
  "not_or_not_get x k =
     (if \<not> truthy x then Inr True
      else (case get x k of Inl err \<Rightarrow> Inl err | Inr v \<Rightarrow> Inr (\<not> truthy v)))"

definition connection_info :: "json \<Rightarrow> error + json" where
  "connection_info container =
     (case subscript container ''connection'' of
        Inl err \<Rightarrow> Inl err
      | Inr c \<Rightarrow>
          (case subscript container ''port'' of
             Inl err \<Rightarrow> Inl err
           | Inr p \<Rightarrow> Inr (JObj [(''connection'', c), (''port'', p)])))"

definition get_connection_info :: "env \<Rightarrow> string \<Rightarrow> string \<Rightarrow> AuthToken \<Rightarrow> json io" where
  "get_connection_info e ex_id comp_id user =
     io_bind (interpreter_get_container_by_exercise e ex_id) (\<lambda>container.
     io_bind (io_lift (not_or_not_get container ''is_active'')) (\<lambda>inactive.
       if inactive then io_raise (HTTPException 404 (JStr msg_inactive))
       else io_lift (connection_info container)))"



definition create_exercise :: "env \<Rightarrow> json \<Rightarrow> AuthToken \<Rightarrow> json io" where
  "create_exercise e payload user =
     (if role user \<noteq> ''admin'' then io_raise (HTTPException 403 (JStr msg_denied))
      else interpreter_create_exercise e payload)"





section \<open>The attendance router\<close>






section \<open>The scoreboard router\<close>



section \<open>Well-formed downstream lists\<close>




section \<open>Concrete worlds for evaluation\<close>

text \<open>
  A world whose interpreter answers by endpoint (404 when the endpoint is not listed),
  whose orchestrator always answers \<open>orch\<close>, whose validation accepts every container as
  it is, and whose date parser is a table.
\<close>

definition table_env ::
  "(string \<times> outcome) list \<Rightarrow> error + json \<Rightarrow> (string \<times> datetime) list \<Rightarrow> int \<Rightarrow> env" where
  "table_env routes orch dates clock =
     \<lparr>transport = (\<lambda>tr rq. case map_of routes (endpoint rq) of
                              None \<Rightarrow> Response 404 None
                            | Some out \<Rightarrow> out),
      start_container = (\<lambda>tr p. orch),
      validate_container = Some,
      fromisoformat = map_of dates,
      utcnow = clock\<rparr>"

definition student :: AuthToken where
  "student = \<lparr>user_id = ''u1'', username = ''alice'', role = ''student''\<rparr>"

definition admin :: AuthToken where
  "admin = \<lparr>user_id = ''a1'', username = ''root'', role = ''admin''\<rparr>"

section \<open>The pass-through reading of the client\<close>



definition container_world :: env where
  "container_world =
     table_env
       [(''/containers/exercise/e1'',
         Response 200 (Some (JObj [(''is_active'', JBool True),
                                   (''connection'', JStr ''10.0.0.5''),
                                   (''port'', JInt 31337)])))]
       (Inr JNull) [] 0"

section \<open>Observing the downstream calls of a handler\<close>






























section \<open>Basic facts\<close>

lemma io_simps:
  "io_bind m f tr = (case m tr of (Inl e, tr') \<Rightarrow> (Inl e, tr') | (Inr v, tr') \<Rightarrow> f v tr')"
  "io_raise err tr = (Inl err, tr)"
  "io_return v tr = (Inr v, tr)"
  "io_lift r tr = (r, tr)"
  by (simp_all add: io_bind_def io_raise_def io_return_def io_lift_def)

lemma request_eq:
  "request e m ep ps b tr
     = (map_outcome (transport e tr (Request m ep ps b)), tr @ [InterpreterCall (Request m ep ps b)])"
  by (simp add: request_def Let_def)


section \<open>The client's outcome mapping\<close>

text \<open>
  C10.  \<open>_request\<close> returns \<open>None\<close> for every downstream response with status 404 and
  for every response with status 204, whatever the request and the body; so
  \<open>delete_exercise\<close> yields the same \<open>None\<close>, with the same single downstream call,
  when the deletion succeeds with 204 and when the exercise does not exist (404).
\<close>

theorem request_404_204_both_None:
  "(transport e tr (Request m ep ps b) = Response 404 bd404
      \<longrightarrow> request e m ep ps b tr = (Inr JNull, tr @ [InterpreterCall (Request m ep ps b)]))
   \<and> (transport e tr (Request m ep ps b) = Response 204 bd204
      \<longrightarrow> request e m ep ps b tr = (Inr JNull, tr @ [InterpreterCall (Request m ep ps b)]))
   \<and> (transport e1 tr (Request ''DELETE'' (''/exercises/'' @ ex_id) [] None) = Response 204 bd204
      \<and> transport e2 tr (Request ''DELETE'' (''/exercises/'' @ ex_id) [] None) = Response 404 bd404
      \<longrightarrow> interpreter_delete_exercise e1 ex_id tr = interpreter_delete_exercise e2 ex_id tr
        \<and> fst (interpreter_delete_exercise e1 ex_id tr) = Inr JNull)"
  by (simp add: request_def interpreter_delete_exercise_def map_outcome_def)

theorem request_404_204_both_None_witness:
  "request (table_env [] (Inr JNull) [] 0) ''GET'' ''/tags/'' [] None []
     = (Inr JNull, [InterpreterCall (Request ''GET'' ''/tags/'' [] None)])
   \<and> request (table_env [(''/tags/t1'', Response 204 None)] (Inr JNull) [] 0)
        ''DELETE'' ''/tags/t1'' [] None []
     = (Inr JNull, [InterpreterCall (Request ''DELETE'' ''/tags/t1'' [] None)])
   \<and> interpreter_delete_exercise
        (table_env [(''/exercises/e1'', Response 204 None)] (Inr JNull) [] 0) ''e1'' []
     = interpreter_delete_exercise (table_env [] (Inr JNull) [] 0) ''e1'' []
   \<and> fst (interpreter_delete_exercise
        (table_env [(''/exercises/e1'', Response 204 None)] (Inr JNull) [] 0) ''e1'' [])
     = Inr JNull"
proof -
  let ?gone = "table_env [] (Inr JNull) [] 0"
  let ?tag = "table_env [(''/tags/t1'', Response 204 None)] (Inr JNull) [] 0"
  let ?done = "table_env [(''/exercises/e1'', Response 204 None)] (Inr JNull) [] 0"
  have a: "transport ?gone [] (Request ''GET'' ''/tags/'' [] None) = Response 404 None"
    by (simp add: table_env_def)
  have b: "transport ?tag [] (Request ''DELETE'' ''/tags/t1'' [] None) = Response 204 None"
    by (simp add: table_env_def)
  have c: "transport ?done [] (Request ''DELETE'' (''/exercises/'' @ ''e1'') [] None)
             = Response 204 None"
    by (simp add: table_env_def)
  have d: "transport ?gone [] (Request ''DELETE'' (''/exercises/'' @ ''e1'') [] None)
             = Response 404 None"
    by (simp add: table_env_def)
  from request_404_204_both_None
         [where e = ?gone and tr = "[]" and m = "''GET''" and ep = "''/tags/''" and ps = "[]"
            and b = None and ?bd404.0 = None] a
  have 1: "request ?gone ''GET'' ''/tags/'' [] None []
             = (Inr JNull, [InterpreterCall (Request ''GET'' ''/tags/'' [] None)])"
    by simp
  from request_404_204_both_None
         [where e = ?tag and tr = "[]" and m = "''DELETE''" and ep = "''/tags/t1''"
            and ps = "[]" and b = None and ?bd204.0 = None] b
  have 2: "request ?tag ''DELETE'' ''/tags/t1'' [] None []
             = (Inr JNull, [InterpreterCall (Request ''DELETE'' ''/tags/t1'' [] None)])"
    by simp
  from request_404_204_both_None
         [where ?e1.0 = ?done and ?e2.0 = ?gone and tr = "[]" and ex_id = "''e1''"
            and ?bd204.0 = None and ?bd404.0 = None] c d
  have 3: "interpreter_delete_exercise ?done ''e1'' [] = interpreter_delete_exercise ?gone ''e1'' []
           \<and> fst (interpreter_delete_exercise ?done ''e1'' []) = Inr JNull"
    by blast
  from 1 2 3 show ?thesis by blast
qed




section \<open>Role checks in the exercises router\<close>

text \<open>
  C3.  \<open>list_all_exercises\<close> is documented as admin-only, yet it has no role check: for
  a caller with role \<open>student\<close> it calls the interpreter and returns the library, where
  \<open>create_exercise\<close> rejects the same caller with 403 before any downstream call.
\<close>

theorem list_all_exercises_student_forwarded:
  "list_all_exercises (table_env [(''/exercises/'', Response 200 (Some (JList [])))] (Inr JNull) [] 0)
       student []
     = (Inr (JList []), [InterpreterCall (Request ''GET'' ''/exercises/'' [] None)])
   \<and> create_exercise (table_env [(''/exercises/'', Response 200 (Some (JList [])))] (Inr JNull) [] 0)
       JNull student []
     = (Inl (HTTPException 403 (JStr msg_denied)), [])"
  by (simp add: list_all_exercises_def interpreter_list_all_exercises_def create_exercise_def
      request_def map_outcome_def response_json_def table_env_def student_def io_simps)

section \<open>The connection lookup\<close>

lemma get_connection_info_eq:
  "get_connection_info e ex_id comp_id user tr =
     (case map_outcome (transport e tr (Request ''GET'' (''/containers/exercise/'' @ ex_id) [] None)) of
        Inl err \<Rightarrow> Inl err
      | Inr container \<Rightarrow>
          (case not_or_not_get container ''is_active'' of
             Inl err \<Rightarrow> Inl err
           | Inr inactive \<Rightarrow>
               if inactive then Inl (HTTPException 404 (JStr msg_inactive))
               else connection_info container),
      tr @ [InterpreterCall (Request ''GET'' (''/containers/exercise/'' @ ex_id) [] None)])"
  by (simp add: get_connection_info_def interpreter_get_container_by_exercise_def io_simps
      request_eq split: sum.splits)

text \<open>
  C8.  In \<open>get_connection_info\<close> the \<open>comp_id\<close> parameter has no influence on the
  result, and neither has the caller: the only downstream call is the container lookup
  for \<open>ex_id\<close>, and whenever that container is active its connection and port are
  returned.
\<close>

theorem get_connection_info_ignores_comp_id_and_caller:
  "get_connection_info e ex_id comp_id1 user tr = get_connection_info e ex_id comp_id2 user tr
   \<and> get_connection_info e ex_id comp_id1 user tr = get_connection_info e ex_id comp_id1 user' tr
   \<and> snd (get_connection_info e ex_id comp_id1 user tr)
       = tr @ [InterpreterCall (Request ''GET'' (''/containers/exercise/'' @ ex_id) [] None)]
   \<and> (fst (interpreter_get_container_by_exercise e ex_id tr) = Inr (JObj kvs)
       \<and> map_of kvs ''is_active'' = Some a \<and> truthy a
       \<and> map_of kvs ''connection'' = Some c \<and> map_of kvs ''port'' = Some p
      \<longrightarrow> fst (get_connection_info e ex_id comp_id1 user tr)
          = Inr (JObj [(''connection'', c), (''port'', p)]))"
proof -
  have active: "fst (get_connection_info e ex_id comp_id1 user tr)
                  = Inr (JObj [(''connection'', c), (''port'', p)])"
    if "fst (interpreter_get_container_by_exercise e ex_id tr) = Inr (JObj kvs)"
      and "map_of kvs ''is_active'' = Some a" and "truthy a"
      and "map_of kvs ''connection'' = Some c" and "map_of kvs ''port'' = Some p"
  proof -
    from that(1) have "map_outcome (transport e tr
        (Request ''GET'' (''/containers/exercise/'' @ ex_id) [] None)) = Inr (JObj kvs)"
      by (simp add: interpreter_get_container_by_exercise_def request_eq)
    moreover from that(2) have "kvs \<noteq> []" by auto
    ultimately show ?thesis using that(2-5)
      by (simp add: get_connection_info_eq not_or_not_get_def get_def connection_info_def)
  qed
  show ?thesis
    using active by (simp add: get_connection_info_eq)
qed

theorem get_connection_info_ignores_comp_id_and_caller_witness:
  "fst (get_connection_info container_world ''e1'' ''c1'' student [])
     = Inr (JObj [(''connection'', JStr ''10.0.0.5''), (''port'', JInt 31337)])
   \<and> get_connection_info container_world ''e1'' ''c1'' student []
     = get_connection_info container_world ''e1'' ''c2'' student []"
proof -
  have got: "fst (interpreter_get_container_by_exercise container_world ''e1'' [])
               = Inr (JObj [(''is_active'', JBool True), (''connection'', JStr ''10.0.0.5''),
                            (''port'', JInt 31337)])"
    by (simp add: interpreter_get_container_by_exercise_def request_eq map_outcome_def
        response_json_def container_world_def table_env_def)
  note inst = get_connection_info_ignores_comp_id_and_caller
         [where e = container_world and ex_id = "''e1''" and tr = "[]" and ?comp_id1.0 = "''c1''"
            and ?comp_id2.0 = "''c2''" and user = student
            and kvs = "[(''is_active'', JBool True), (''connection'', JStr ''10.0.0.5''),
                        (''port'', JInt 31337)]"
            and a = "JBool True" and c = "JStr ''10.0.0.5''" and p = "JInt 31337"
            and user' = admin]
  have "truthy (JBool True)
          \<and> map_of [(''is_active'', JBool True), (''connection'', JStr ''10.0.0.5''),
                     (''port'', JInt 31337)] ''is_active'' = Some (JBool True)
          \<and> map_of [(''is_active'', JBool True), (''connection'', JStr ''10.0.0.5''),
                     (''port'', JInt 31337)] ''connection'' = Some (JStr ''10.0.0.5'')
          \<and> map_of [(''is_active'', JBool True), (''connection'', JStr ''10.0.0.5''),
                     (''port'', JInt 31337)] ''port'' = Some (JInt 31337)"
    by simp
  with got inst show ?thesis by blast
qed

section \<open>Flag submission\<close>





















section \<open>Attendance\<close>












section \<open>The competition scoreboard\<close>









section \<open>Deployment of an exercise\<close>











end
